theory Spec2Isabelle
  imports Complex_Main "HOL-Library.Sublist"
begin

section \<open>The control loop of main.cpp\<close>

text \<open>
  The program is a WebSocket handler: each inbound message is screened by \<open>hasData\<close>,
  a telemetry payload is turned into waypoints in the vehicle frame
  (\<open>convertToCoordinates\<close>), a cubic is fitted (\<open>polyfit\<close>), the state is advanced by
  one latency interval, the optimizer is called, and a steer message is built.

  A C++ \<open>double\<close> is modelled as a \<open>real\<close>: the theorems below are about the formulas
  the code evaluates, not about their rounding. Sizes and indices of \<open>std::string\<close>
  are \<open>size_t\<close>, modelled as \<open>nat\<close> with the 64-bit wrap-around written out.
  A failed \<open>assert\<close>, an uncaught exception and an out-of-range read end the process;
  they are values of \<open>error\<close>.
\<close>

subsection \<open>Failures\<close>

datatype error =
    AssertionFailed   \<comment> \<open>an \<open>assert\<close> of main.cpp or an index assertion of Eigen: \<open>abort()\<close>\<close>
  | JsonException     \<comment> \<open>\<open>json::parse\<close> or a field read throws; nothing catches it\<close>
  | OutOfRange        \<comment> \<open>\<open>solution[i]\<close> beyond the vector the optimizer returned\<close>

subsection \<open>hasData\<close>

text \<open>\<open>std::string::npos\<close> is the largest \<open>size_t\<close>; a search that fails is \<open>None\<close> here.\<close>

definition size_t_modulus :: nat where
  "size_t_modulus = 2 ^ 64"

text \<open>\<open>s.find(t)\<close>: the least position where \<open>t\<close> starts in \<open>s\<close>.\<close>

primrec str_find :: "string \<Rightarrow> string \<Rightarrow> nat option" where
  "str_find [] t = (if t = [] then Some 0 else None)"
| "str_find (c # cs) t =
     (if prefix t (c # cs) then Some 0 else map_option Suc (str_find cs t))"

text \<open>\<open>s.find_first_of(t)\<close>: the least position of a character of \<open>t\<close> in \<open>s\<close>.\<close>

primrec find_first_of :: "string \<Rightarrow> string \<Rightarrow> nat option" where
  "find_first_of [] t = None"
| "find_first_of (c # cs) t =
     (if c \<in> set t then Some 0 else map_option Suc (find_first_of cs t))"

text \<open>\<open>s.rfind(t)\<close>: the greatest position where \<open>t\<close> starts in \<open>s\<close>.\<close>

primrec str_rfind :: "string \<Rightarrow> string \<Rightarrow> nat option" where
  "str_rfind [] t = (if t = [] then Some 0 else None)"
| "str_rfind (c # cs) t =
     (case str_rfind cs t of
        Some i \<Rightarrow> Some (Suc i)
      | None \<Rightarrow> if prefix t (c # cs) then Some 0 else None)"

text \<open>\<open>s.substr(pos, n)\<close> for \<open>pos \<le> s.size()\<close>: at most \<open>n\<close> characters from \<open>pos\<close>.\<close>

definition substr :: "string \<Rightarrow> nat \<Rightarrow> nat \<Rightarrow> string" where
  "substr s pos n = take n (drop pos s)"

definition hasData :: "string \<Rightarrow> string" where
  "hasData s =
     (let found_null = str_find s ''null'';
          b1 = find_first_of s ''['';
          b2 = str_rfind s ''}]''
      in if found_null \<noteq> None then ''''
         else (case (b1, b2) of
                 (Some p1, Some p2) \<Rightarrow>
                   substr s p1 ((p2 + size_t_modulus - p1 + 2) mod size_t_modulus)
               | _ \<Rightarrow> ''''))"

subsection \<open>polyeval and polyfit\<close>

text \<open>The loop \<open>result += coeffs[i] * pow(x, i)\<close>, after its first \<open>n\<close> rounds.\<close>

primrec polyeval_loop :: "real list \<Rightarrow> real \<Rightarrow> nat \<Rightarrow> real" where
  "polyeval_loop coeffs x 0 = 0"
| "polyeval_loop coeffs x (Suc i) = polyeval_loop coeffs x i + coeffs ! i * x ^ i"

definition polyeval :: "real list \<Rightarrow> real \<Rightarrow> real" where
  "polyeval coeffs x = polyeval_loop coeffs x (length coeffs)"

text \<open>
  One row of the matrix \<open>A\<close>: \<open>A(j, 0) = 1\<close>, then \<open>A(j, i + 1) = A(j, i) * xvals(j)\<close>
  for \<open>i < order\<close>.
\<close>

primrec fill_row :: "real \<Rightarrow> nat \<Rightarrow> real list" where
  "fill_row xj 0 = [1]"
| "fill_row xj (Suc i) = (let row = fill_row xj i in row @ [last row * xj])"

text \<open>
  \<open>polyfit\<close>. The factorisation and the solve are Eigen's (\<open>A.householderQr()\<close>,
  \<open>Q.solve(yvals)\<close>), which is not code of this repository: the parameter
  \<open>householderQr_solve\<close> stands for them. The matrix is the list of its rows.
  \<open>xvals.size()\<close> is a signed index, so \<open>xvals.size() - 1\<close> is \<open>-1\<close> for no sample.
\<close>

definition polyfit ::
  "(real list list \<Rightarrow> real list \<Rightarrow> real list) \<Rightarrow> real list \<Rightarrow> real list \<Rightarrow> int
     \<Rightarrow> error + real list" where
  "polyfit householderQr_solve xvals yvals order =
     (if length xvals \<noteq> length yvals then Inl AssertionFailed
      else if \<not> (order \<ge> 1 \<and> order \<le> int (length xvals) - 1) then Inl AssertionFailed
      else Inr (householderQr_solve (map (\<lambda>xj. fill_row xj (nat order)) xvals) yvals))"

subsection \<open>convertToCoordinates\<close>

text \<open>
  The 2 by \<open>len\<close> matrix \<open>pathpoints\<close> is the pair of its rows. \<open>convert_loop\<close> is the
  matrix after the first \<open>n\<close> rounds of the loop over \<open>i\<close>.
\<close>

primrec convert_loop ::
  "real \<Rightarrow> real \<Rightarrow> real \<Rightarrow> real list \<Rightarrow> real list \<Rightarrow> nat \<Rightarrow> real list \<times> real list" where
  "convert_loop x y psi ptsx ptsy 0 = ([], [])"
| "convert_loop x y psi ptsx ptsy (Suc i) =
     (let (row0, row1) = convert_loop x y psi ptsx ptsy i
      in (row0 @ [cos psi * (ptsx ! i - x) + sin psi * (ptsy ! i - y)],
          row1 @ [- sin psi * (ptsx ! i - x) + cos psi * (ptsy ! i - y)]))"

definition convertToCoordinates ::
  "real \<Rightarrow> real \<Rightarrow> real \<Rightarrow> real list \<Rightarrow> real list \<Rightarrow> error + real list \<times> real list" where
  "convertToCoordinates x y psi ptsx ptsy =
     (if length ptsx \<noteq> length ptsy then Inl AssertionFailed
      else Inr (convert_loop x y psi ptsx ptsy (length ptsx)))"

text \<open>
  Modelled from the spec: the inverse transform of the round-trip property, which
  main.cpp does not have. It takes a point of the vehicle frame back to the world
  frame: rotate by the heading, then translate by the position.
\<close>

definition inverseTransform ::
  "real \<Rightarrow> real \<Rightarrow> real \<Rightarrow> real list \<Rightarrow> real list \<Rightarrow> real list \<times> real list" where
  "inverseTransform x y psi lxs lys =
     (map (\<lambda>(lx, ly). x + (cos psi * lx - sin psi * ly)) (zip lxs lys),
      map (\<lambda>(lx, ly). y + (sin psi * lx + cos psi * ly)) (zip lxs lys))"

subsection \<open>The telemetry handler\<close>

record telemetry =
  tel_ptsx :: "real list"
  tel_ptsy :: "real list"
  tel_x :: real
  tel_y :: real
  tel_psi :: real
  tel_speed :: real
  tel_steering_angle :: real
  tel_throttle :: real

datatype event = Telemetry telemetry | OtherEvent

text \<open>
  What the handler uses and this file does not hold: the JSON library (parsing the
  payload and reading its fields, which throws on a malformed one), Eigen's solve, and
  the class \<open>MPC\<close> (\<open>Solve\<close> and \<open>getTimeInterval\<close>).
\<close>

record externals =
  json_decode :: "string \<Rightarrow> error + event"
  householderQr_solve :: "real list list \<Rightarrow> real list \<Rightarrow> real list"
  mpc_Solve :: "real list \<Rightarrow> real list \<Rightarrow> real list"
  getTimeInterval :: real

record steer_json =
  msg_steering_angle :: real
  msg_throttle :: real
  msg_mpc_x :: "real list"
  msg_mpc_y :: "real list"
  msg_next_x :: "real list"
  msg_next_y :: "real list"

text \<open>
  A frame sent on the socket: a literal text, or \<open>42["steer",\<close> followed by the dump of
  the JSON object and \<open>]\<close>.
\<close>

datatype frame = Text string | Steer steer_json

datatype outcome = NoReply | Reply frame | Crashed error

definition deg2rad :: "real \<Rightarrow> real" where
  "deg2rad x = x * pi / 180"

text \<open>
  \<open>fmod(x, y)\<close> of the C library for \<open>y \<noteq> 0\<close>: \<open>x - n * y\<close>, where \<open>n\<close> is \<open>x / y\<close>
  with its fractional part cut off. The result is exact in floating point.
\<close>

definition trunc :: "real \<Rightarrow> int" where
  "trunc r = (if 0 \<le> r then \<lfloor>r\<rfloor> else \<lceil>r\<rceil>)"

definition fmod :: "real \<Rightarrow> real \<Rightarrow> real" where
  "fmod x y = x - of_int (trunc (x / y)) * y"

definition Lf :: real where
  "Lf = 2.67"

text \<open>
  Lines 140 to 149: the state after the interval \<open>dt\<close>, in the vehicle frame of the
  measurement, where the vehicle is at the origin with heading 0.
\<close>

definition predicted_state :: "real \<Rightarrow> real \<Rightarrow> real \<Rightarrow> real \<Rightarrow> real \<Rightarrow> real \<Rightarrow> real list" where
  "predicted_state v steering_angle throttle cte epsi dt =
     (let px_actual = v * dt;
          py_actual = 0;
          psi_actual = - v * steering_angle * dt / Lf;
          v_actual = v + throttle * dt;
          cte_actual = cte + v * sin epsi * dt;
          epsi_actual = epsi + psi_actual
      in [px_actual, py_actual, psi_actual, v_actual, cte_actual, epsi_actual])"

text \<open>
  Lines 124 to 149: the arguments of \<open>mpc.Solve\<close>, the state and the coefficients.
  Reading \<open>coeffs[0]\<close> and \<open>coeffs[1]\<close> of an Eigen vector asserts the index.
\<close>

definition optimizer_input :: "externals \<Rightarrow> telemetry \<Rightarrow> error + real list \<times> real list" where
  "optimizer_input ext t =
     (case convertToCoordinates (tel_x t) (tel_y t) (tel_psi t) (tel_ptsx t) (tel_ptsy t) of
        Inl e \<Rightarrow> Inl e
      | Inr (xvals, yvals) \<Rightarrow>
          (case polyfit (householderQr_solve ext) xvals yvals 3 of
             Inl e \<Rightarrow> Inl e
           | Inr coeffs \<Rightarrow>
               if length coeffs < 2 then Inl AssertionFailed
               else
                 let cte = coeffs ! 0;
                     epsi = - arctan (coeffs ! 1);
                     dt = getTimeInterval ext
                 in Inr (predicted_state (tel_speed t) (tel_steering_angle t)
                           (tel_throttle t) cte epsi dt, coeffs)))"

text \<open>Lines 156 to 189: the JSON object of the steer message.\<close>

definition steer_message :: "real list \<Rightarrow> error + steer_json" where
  "steer_message solution =
     (if length solution < 8 then Inl OutOfRange
      else
        let steer_value = solution ! 6;
            throttle_value = solution ! 7;
            steer_value = steer_value / deg2rad 25;
            throttle_value = fmod throttle_value 1.0
        in Inr \<lparr> msg_steering_angle = - steer_value,
                 msg_throttle = throttle_value,
                 msg_mpc_x = [solution ! 0],
                 msg_mpc_y = [solution ! 1],
                 msg_next_x = [],
                 msg_next_y = [] \<rparr>)"

definition telemetry_cycle :: "externals \<Rightarrow> telemetry \<Rightarrow> outcome" where
  "telemetry_cycle ext t =
     (case optimizer_input ext t of
        Inl e \<Rightarrow> Crashed e
      | Inr (state, coeffs) \<Rightarrow>
          (case steer_message (mpc_Solve ext state coeffs) of
             Inl e \<Rightarrow> Crashed e
           | Inr msgJson \<Rightarrow> Reply (Steer msgJson)))"

definition onMessage :: "externals \<Rightarrow> string \<Rightarrow> outcome" where
  "onMessage ext sdata =
     (if length sdata > 2 \<and> sdata ! 0 = CHR ''4'' \<and> sdata ! 1 = CHR ''2'' then
        let s = hasData sdata
        in if s \<noteq> '''' then
             (case json_decode ext s of
                Inl e \<Rightarrow> Crashed e
              | Inr (Telemetry t) \<Rightarrow> telemetry_cycle ext t
              | Inr OtherEvent \<Rightarrow> NoReply)
           else Reply (Text ''42[\"manual\",{}]'')
      else NoReply)"

section \<open>The frame transform\<close>

lemma convert_loop_rows:
  "convert_loop x y psi ptsx ptsy n =
     (map (\<lambda>i. cos psi * (ptsx ! i - x) + sin psi * (ptsy ! i - y)) [0..<n],
      map (\<lambda>i. - sin psi * (ptsx ! i - x) + cos psi * (ptsy ! i - y)) [0..<n])"
  by (induction n) simp_all

lemma cos_square: "cos p * cos p = 1 - sin p * sin (p::real)"
  using sin_cos_squared_add3 [of p] by linarith

lemma rotate_back_x:
  "cos p * (cos p * a + sin p * b) - sin p * (- sin p * a + cos p * b) = (a::real)"
  by (simp add: algebra_simps cos_square)

lemma rotate_back_y:
  "sin p * (cos p * a + sin p * b) + cos p * (- sin p * a + cos p * b) = (b::real)"
  by (simp add: algebra_simps cos_square)

lemma rotation_norm:
  "(cos p * a + sin p * b)\<^sup>2 + (- sin p * a + cos p * b)\<^sup>2 = a\<^sup>2 + (b::real)\<^sup>2"
  by (simp add: algebra_simps power2_eq_square cos_square)

text \<open>
  C2. For a pose \<open>(x, y, psi)\<close> and waypoint coordinates \<open>ptsx\<close>, \<open>ptsy\<close> of one length
  (the function's assertion), \<open>convertToCoordinates\<close> returns, point by point and in
  the order of the input, \<open>cos psi * (wx - x) + sin psi * (wy - y)\<close> in row 0 and
  \<open>- sin psi * (wx - x) + cos psi * (wy - y)\<close> in row 1.
\<close>

theorem frame_transform_formula:
  assumes "length ptsx = length ptsy"
  shows "convertToCoordinates x y psi ptsx ptsy =
           Inr (map (\<lambda>(wx, wy). cos psi * (wx - x) + sin psi * (wy - y)) (zip ptsx ptsy),
                map (\<lambda>(wx, wy). - sin psi * (wx - x) + cos psi * (wy - y)) (zip ptsx ptsy))"
proof -
  have r0: "map (\<lambda>i. cos psi * (ptsx ! i - x) + sin psi * (ptsy ! i - y)) [0..<length ptsx]
            = map (\<lambda>(wx, wy). cos psi * (wx - x) + sin psi * (wy - y)) (zip ptsx ptsy)"
    using assms by (intro nth_equalityI) simp_all
  have r1: "map (\<lambda>i. - sin psi * (ptsx ! i - x) + cos psi * (ptsy ! i - y)) [0..<length ptsx]
            = map (\<lambda>(wx, wy). - sin psi * (wx - x) + cos psi * (wy - y)) (zip ptsx ptsy)"
    using assms by (intro nth_equalityI) simp_all
  have "convertToCoordinates x y psi ptsx ptsy = Inr (convert_loop x y psi ptsx ptsy (length ptsx))"
    using assms by (simp add: convertToCoordinates_def)
  then show ?thesis
    unfolding convert_loop_rows r0 r1 .
qed

theorem frame_transform_formula_witness:
  "convertToCoordinates 1 2 (pi / 2) [3, 5] [4, 2] = Inr ([2, 0], [- 2, - 4])"
  using frame_transform_formula [of "[3, 5]" "[4, 2]" 1 2 "pi / 2"] by simp

text \<open>
  C7. For every pose and every waypoint set (coordinate lists of one length), the
  transform into the vehicle frame followed by the inverse transform of the same pose
  gives the waypoint set back.
\<close>

theorem frame_transform_round_trip:
  assumes "length ptsx = length ptsy"
  shows "\<exists>lxs lys. convertToCoordinates x y psi ptsx ptsy = Inr (lxs, lys)
           \<and> inverseTransform x y psi lxs lys = (ptsx, ptsy)"
proof -
  let ?lxs = "map (\<lambda>i. cos psi * (ptsx ! i - x) + sin psi * (ptsy ! i - y)) [0..<length ptsx]"
  let ?lys = "map (\<lambda>i. - sin psi * (ptsx ! i - x) + cos psi * (ptsy ! i - y)) [0..<length ptsx]"
  have c: "convertToCoordinates x y psi ptsx ptsy = Inr (?lxs, ?lys)"
    using assms by (simp add: convertToCoordinates_def convert_loop_rows)
  have bx: "map (\<lambda>(lx, ly). x + (cos psi * lx - sin psi * ly)) (zip ?lxs ?lys) = ptsx"
    by (intro nth_equalityI) (simp_all add: rotate_back_x del: mult_minus_left)
  have by': "map (\<lambda>(lx, ly). y + (sin psi * lx + cos psi * ly)) (zip ?lxs ?lys) = ptsy"
    using assms by (intro nth_equalityI) (simp_all add: rotate_back_y del: mult_minus_left)
  show ?thesis using c bx by' by (simp add: inverseTransform_def)
qed

theorem frame_transform_round_trip_witness:
  "convertToCoordinates 1 2 (pi / 2) [3, 5] [4, 2] = Inr ([2, 0], [- 2, - 4])
   \<and> inverseTransform 1 2 (pi / 2) [2, 0] [- 2, - 4] = ([3, 5], [4, 2])"
  using frame_transform_round_trip [of "[3, 5]" "[4, 2]" 1 2 "pi / 2"]
  by (simp add: convertToCoordinates_def inverseTransform_def)

text \<open>
  C10. For every pose and every two waypoints \<open>i\<close> and \<open>j\<close> of the input, the Euclidean
  distance between their images in the vehicle frame is the distance between the
  waypoints.
\<close>

theorem frame_transform_isometry:
  assumes "length ptsx = length ptsy"
    and "i < length ptsx" and "j < length ptsx"
  shows "\<exists>lxs lys. convertToCoordinates x y psi ptsx ptsy = Inr (lxs, lys)
           \<and> length lxs = length ptsx \<and> length lys = length ptsx
           \<and> sqrt ((lxs ! i - lxs ! j)\<^sup>2 + (lys ! i - lys ! j)\<^sup>2)
               = sqrt ((ptsx ! i - ptsx ! j)\<^sup>2 + (ptsy ! i - ptsy ! j)\<^sup>2)"
proof -
  let ?lxs = "map (\<lambda>i. cos psi * (ptsx ! i - x) + sin psi * (ptsy ! i - y)) [0..<length ptsx]"
  let ?lys = "map (\<lambda>i. - sin psi * (ptsx ! i - x) + cos psi * (ptsy ! i - y)) [0..<length ptsx]"
  have c: "convertToCoordinates x y psi ptsx ptsy = Inr (?lxs, ?lys)"
    using assms by (simp add: convertToCoordinates_def convert_loop_rows)
  define a where "a = ptsx ! i - ptsx ! j"
  define b where "b = ptsy ! i - ptsy ! j"
  have dx: "?lxs ! i - ?lxs ! j = cos psi * a + sin psi * b"
    using assms by (simp add: a_def b_def algebra_simps)
  have dy: "?lys ! i - ?lys ! j = - sin psi * a + cos psi * b"
    using assms by (simp add: a_def b_def algebra_simps)
  have "(?lxs ! i - ?lxs ! j)\<^sup>2 + (?lys ! i - ?lys ! j)\<^sup>2 = a\<^sup>2 + b\<^sup>2"
    unfolding dx dy by (rule rotation_norm)
  then show ?thesis using c unfolding a_def b_def by simp
qed

theorem frame_transform_isometry_witness:
  "convertToCoordinates 1 2 (pi / 2) [3, 5] [4, 2] = Inr ([2, 0], [- 2, - 4])
   \<and> sqrt ((2 - 0)\<^sup>2 + (- 2 - (- 4))\<^sup>2) = sqrt ((3 - 5)\<^sup>2 + ((4::real) - 2)\<^sup>2)"
  using frame_transform_isometry [of "[3, 5]" "[4, 2]" 0 1 1 2 "pi / 2"]
  by (simp add: convertToCoordinates_def)

section \<open>Screening of inbound messages\<close>

lemma str_find_None: "str_find s t = None \<longleftrightarrow> \<not> sublist t s"
  by (induction s) (auto simp: sublist_Cons_right)

text \<open>
  C9. For every message \<open>s\<close> that contains \<open>null\<close> anywhere, \<open>hasData\<close> returns the empty
  string; so when \<open>s\<close> is an event frame (longer than two characters and starting with
  \<open>42\<close>, the handler's own test), the handler answers with \<open>42["manual",{}]\<close>, whatever
  else the message holds and whatever the JSON library, the solver and the optimizer
  would do.
\<close>

theorem null_message_is_manual:
  assumes "sublist ''null'' s"
  shows "hasData s = ''''
         \<and> (length s > 2 \<and> s ! 0 = CHR ''4'' \<and> s ! 1 = CHR ''2''
              \<longrightarrow> onMessage ext s = Reply (Text ''42[\"manual\",{}]''))"
proof -
  have "str_find s ''null'' \<noteq> None"
    using assms by (simp add: str_find_None)
  then have h: "hasData s = ''''"
    by (simp add: hasData_def)
  then show ?thesis
    by (simp add: onMessage_def)
qed

theorem null_message_is_manual_witness:
  "\<forall>ext. hasData (''42[\"telemetry\",{\"ptsx\":[1,2],\"tag\":\"'' @ ''null'' @ ''\"}]'') = ''''
     \<and> onMessage ext (''42[\"telemetry\",{\"ptsx\":[1,2],\"tag\":\"'' @ ''null'' @ ''\"}]'')
          = Reply (Text ''42[\"manual\",{}]'')"
proof
  fix ext
  have "sublist ''null'' (''42[\"telemetry\",{\"ptsx\":[1,2],\"tag\":\"'' @ ''null'' @ ''\"}]'')"
    by (rule sublist_appendI)
  from null_message_is_manual [OF this, of ext]
  show "hasData (''42[\"telemetry\",{\"ptsx\":[1,2],\"tag\":\"'' @ ''null'' @ ''\"}]'') = ''''
     \<and> onMessage ext (''42[\"telemetry\",{\"ptsx\":[1,2],\"tag\":\"'' @ ''null'' @ ''\"}]'')
          = Reply (Text ''42[\"manual\",{}]'')"
    by simp
qed

text \<open>Without \<open>null\<close>, the payload from the first \<open>[\<close> to the last \<open>}]\<close> is returned.\<close>

lemma hasData_payload_example:
  "hasData ''42[\"telemetry\",{\"x\":1}]'' = ''[\"telemetry\",{\"x\":1}]''"
  by (simp add: hasData_def substr_def size_t_modulus_def)

section \<open>The curve fit\<close>

lemma fill_row_powers: "fill_row x n = map (\<lambda>i. x ^ i) [0..<Suc n]"
  by (induction n) (simp_all add: Let_def)

lemma fill_row_cubic: "fill_row x (nat 3) = [1, x, x\<^sup>2, x ^ 3]"
  by (simp add: fill_row_powers upt_rec numeral_nat)

text \<open>
  C4, as the code has it. \<open>polyfit\<close> of degree 3 has no test of the samples' rank: it
  fails only on its assertions, when the two sample lists differ in length or hold
  fewer than 4 samples (counted with repetitions). In every other case, identical
  \<open>x\<close> values included, it returns what the Householder solve gives for the matrix of
  the rows \<open>1, x, x\<^sup>2, x\<^sup>3\<close>.
\<close>

theorem polyfit_has_no_degeneracy_check:
  "polyfit qr xvals yvals 3 =
     (if length xvals = length yvals \<and> 4 \<le> length xvals
      then Inr (qr (map (\<lambda>x. [1, x, x\<^sup>2, x ^ 3]) xvals) yvals)
      else Inl AssertionFailed)"
  unfolding polyfit_def fill_row_cubic by auto

text \<open>
  C4 as stated fails: four samples on the vertical line \<open>x = 1\<close> pass both assertions,
  and the fit returns the solver's answer for a matrix of rank 1, for every solver.
\<close>

theorem identical_x_fit_counterexample:
  "\<forall>qr. polyfit qr [1, 1, 1, 1] [0, 1, 2, 3] 3
          = Inr (qr [[1, 1, 1, 1], [1, 1, 1, 1], [1, 1, 1, 1], [1, 1, 1, 1]] [0, 1, 2, 3])"
  by (simp add: polyfit_def numeral_nat Let_def)

section \<open>Latency compensation\<close>

lemma polyeval_loop_at_0:
  "polyeval_loop coeffs 0 n = (if n = 0 then 0 else coeffs ! 0)"
  by (induction n) (simp_all add: power_0_left)

lemma polyeval_at_0: "coeffs \<noteq> [] \<Longrightarrow> polyeval coeffs 0 = coeffs ! 0"
  by (simp add: polyeval_def polyeval_loop_at_0)

lemma polyeval_loop_deriv_at_0:
  "((\<lambda>x. polyeval_loop coeffs x n) has_real_derivative (if 2 \<le> n then coeffs ! 1 else 0)) (at 0)"
proof (induction n)
  case 0
  show ?case by simp
next
  case (Suc n)
  have step: "((\<lambda>x. coeffs ! n * x ^ n) has_real_derivative (if n = 1 then coeffs ! 1 else 0)) (at 0)"
    by (auto intro!: derivative_eq_intros simp: power_0_left)
  have "((\<lambda>x. polyeval_loop coeffs x n + coeffs ! n * x ^ n) has_real_derivative
          ((if 2 \<le> n then coeffs ! 1 else 0) + (if n = 1 then coeffs ! 1 else 0))) (at 0)"
    by (rule DERIV_add [OF Suc.IH step])
  moreover have "(if 2 \<le> n then coeffs ! 1 else 0) + (if n = 1 then coeffs ! 1 else 0)
                 = (if 2 \<le> Suc n then coeffs ! 1 else 0)"
    by auto
  ultimately show ?case by simp
qed

lemma polyeval_deriv_at_0:
  "2 \<le> length coeffs \<Longrightarrow> (polyeval coeffs has_real_derivative coeffs ! 1) (at 0)"
  using polyeval_loop_deriv_at_0 [of coeffs "length coeffs"]
  by (simp add: polyeval_def [abs_def])

text \<open>
  C1. In every telemetry cycle whose waypoints pass the transform and the fit (the
  solver returning the coefficients \<open>coeffs\<close>, at least the two the handler reads),
  the state the cycle hands to \<open>mpc.Solve\<close>, together with \<open>coeffs\<close>, is
  \<open>x' = v * dt\<close>, \<open>y' = 0\<close>, \<open>heading' = - v * steer * dt / Lf\<close>,
  \<open>v' = v + throttle * dt\<close>, \<open>cte' = cte + v * sin epsi * dt\<close>, \<open>epsi' = epsi + heading'\<close>,
  where \<open>cte\<close> is the fitted polynomial at 0, \<open>epsi\<close> is minus the arc tangent of the
  polynomial's derivative at 0, and \<open>dt\<close> is the optimizer's time interval; the reply
  of the cycle is built from what the optimizer returns for exactly these arguments.
\<close>

theorem latency_compensated_state:
  assumes conv: "convertToCoordinates (tel_x t) (tel_y t) (tel_psi t) (tel_ptsx t) (tel_ptsy t)
                   = Inr (xvals, yvals)"
    and fit: "polyfit (householderQr_solve ext) xvals yvals 3 = Inr coeffs"
    and len: "2 \<le> length coeffs"
  shows "\<exists>slope.
           (polyeval coeffs has_real_derivative slope) (at 0)
         \<and> (let v = tel_speed t; steer = tel_steering_angle t; throttle = tel_throttle t;
                 dt = getTimeInterval ext;
                 cte = polyeval coeffs 0;
                 epsi = - arctan slope;
                 heading' = - v * steer * dt / Lf;
                 state = [v * dt, 0, heading', v + throttle * dt,
                          cte + v * sin epsi * dt, epsi + heading']
             in optimizer_input ext t = Inr (state, coeffs)
                \<and> telemetry_cycle ext t =
                    (case steer_message (mpc_Solve ext state coeffs) of
                       Inl e \<Rightarrow> Crashed e
                     | Inr msgJson \<Rightarrow> Reply (Steer msgJson)))"
proof -
  define state where
    "state = [tel_speed t * getTimeInterval ext, 0,
              - tel_speed t * tel_steering_angle t * getTimeInterval ext / Lf,
              tel_speed t + tel_throttle t * getTimeInterval ext,
              polyeval coeffs 0 + tel_speed t * sin (- arctan (coeffs ! 1)) * getTimeInterval ext,
              - arctan (coeffs ! 1)
                + - tel_speed t * tel_steering_angle t * getTimeInterval ext / Lf]"
  from len have ne: "coeffs \<noteq> []" by auto
  have inp: "optimizer_input ext t = Inr (state, coeffs)"
    using conv fit len
    by (simp add: optimizer_input_def Let_def predicted_state_def state_def polyeval_at_0 [OF ne])
  have cyc: "telemetry_cycle ext t =
               (case steer_message (mpc_Solve ext state coeffs) of
                  Inl e \<Rightarrow> Crashed e
                | Inr msgJson \<Rightarrow> Reply (Steer msgJson))"
    by (simp add: telemetry_cycle_def inp)
  show ?thesis
    using polyeval_deriv_at_0 [OF len] inp cyc
    by (intro exI [of _ "coeffs ! 1"]) (simp add: Let_def state_def)
qed

text \<open>
  The witness: four waypoints on the line \<open>y = x\<close>, the vehicle at the origin with
  heading 0 and speed 10, a solver that returns the coefficients of that line, a time
  interval of a tenth of a second, and an optimizer that returns the state it is given
  followed by a steering of 0 and a throttle of 1/2: the predicted point of the reply
  is the compensated position (1, 0).
\<close>

theorem latency_compensated_state_witness:
  "telemetry_cycle
     \<lparr> json_decode = (\<lambda>s. Inr OtherEvent),
       householderQr_solve = (\<lambda>A b. [0, 1, 0, 0]),
       mpc_Solve = (\<lambda>state coeffs. state @ [0, 1 / 2]),
       getTimeInterval = 1 / 10 \<rparr>
     \<lparr> tel_ptsx = [0, 1, 2, 3], tel_ptsy = [0, 1, 2, 3], tel_x = 0, tel_y = 0, tel_psi = 0,
       tel_speed = 10, tel_steering_angle = 0, tel_throttle = 1 \<rparr>
   = Reply (Steer \<lparr> msg_steering_angle = 0, msg_throttle = 1 / 2,
                     msg_mpc_x = [1], msg_mpc_y = [0], msg_next_x = [], msg_next_y = [] \<rparr>)
   \<and> polyeval [0, 1, 0, 0] 0 = 0
   \<and> (polyeval [0, 1, 0, 0] has_real_derivative 1) (at 0)"
proof -
  let ?ext = "\<lparr> json_decode = (\<lambda>s. Inr OtherEvent),
       householderQr_solve = (\<lambda>A b. [0, 1, 0, 0]),
       mpc_Solve = (\<lambda>state coeffs. state @ [0, 1 / 2]),
       getTimeInterval = 1 / 10 \<rparr>"
  let ?t = "\<lparr> tel_ptsx = [0, 1, 2, 3], tel_ptsy = [0, 1, 2, 3], tel_x = 0, tel_y = 0, tel_psi = 0,
       tel_speed = 10, tel_steering_angle = 0, tel_throttle = 1 \<rparr>"
  have conv: "convertToCoordinates (tel_x ?t) (tel_y ?t) (tel_psi ?t) (tel_ptsx ?t) (tel_ptsy ?t)
                = Inr ([0, 1, 2, 3], [0, 1, 2, 3])"
    by (simp add: convertToCoordinates_def numeral_nat)
  have fit: "polyfit (householderQr_solve ?ext) [0, 1, 2, 3] [0, 1, 2, 3] 3 = Inr [0, 1, 0, 0]"
    by (simp add: polyfit_def)
  have len: "2 \<le> length [0, 1, 0, 0 :: real]" by simp
  from latency_compensated_state [OF conv fit len]
  obtain slope where d: "(polyeval [0, 1, 0, 0] has_real_derivative slope) (at 0)"
    and c: "telemetry_cycle ?ext ?t =
              (case steer_message
                 ([10 * (1 / 10), 0, - 10 * 0 * (1 / 10) / Lf, 10 + 1 * (1 / 10),
                   polyeval [0, 1, 0, 0] 0 + 10 * sin (- arctan slope) * (1 / 10),
                   - arctan slope + - 10 * 0 * (1 / 10) / Lf] @ [0, 1 / 2]) of
                 Inl e \<Rightarrow> Crashed e
               | Inr msgJson \<Rightarrow> Reply (Steer msgJson))"
    by (auto simp: Let_def)
  have "(polyeval [0, 1, 0, 0] has_real_derivative 1) (at 0)"
    using polyeval_deriv_at_0 [of "[0, 1, 0, 0]"] by simp
  with d have sl: "slope = 1" by (rule DERIV_unique)
  have p0: "polyeval [0, 1, 0, 0] 0 = 0"
    by (simp add: polyeval_def numeral_nat)
  from c d show ?thesis
    unfolding sl p0 by (simp add: steer_message_def fmod_def trunc_def Let_def)
qed

text \<open>
  C8. With steering 0, throttle 0 and a time interval of 0, the compensation returns
  the state it starts from: the origin of the vehicle frame with heading 0, and the
  speed, the cross-track error and the heading error unchanged.
\<close>

theorem latency_identity:
  "predicted_state v 0 0 cte epsi 0 = [0, 0, 0, v, cte, epsi]"
  by (simp add: predicted_state_def)

section \<open>The steer message\<close>

lemma trunc_small: "\<bar>t\<bar> < 1 \<Longrightarrow> trunc t = 0"
  unfolding trunc_def by (auto simp: floor_eq_iff ceiling_eq_iff)

lemma fmod_one: "fmod t 1 = t - of_int (trunc t)"
  by (simp add: fmod_def)

lemma fmod_one_small: "\<bar>t\<bar> < 1 \<Longrightarrow> fmod t 1 = t"
  by (simp add: fmod_one trunc_small)

lemma fmod_one_bound: "\<bar>fmod t 1\<bar> < 1"
  unfolding fmod_one trunc_def by (auto simp: abs_if) linarith+

lemma fmod_one_nonneg: "0 \<le> t \<Longrightarrow> fmod t 1 = frac t"
  by (simp add: fmod_one trunc_def frac_def)

lemma fmod_one_nonpos: "t \<le> 0 \<Longrightarrow> fmod t 1 = - frac (- t)"
  by (auto simp: fmod_one trunc_def frac_def ceiling_def)

text \<open>
  C3, as the code has it. The throttle of the steer message is \<open>fmod(t, 1.0)\<close> of the
  optimizer's throttle \<open>t = solution[7]\<close>: it lies strictly between -1 and 1, a value
  strictly between -1 and 1 is unchanged, and any other value is not saturated but
  reduced to its fractional part, with the sign of \<open>t\<close>.
\<close>

theorem throttle_is_fmod:
  assumes "8 \<le> length solution"
  shows "\<exists>msgJson. steer_message solution = Inr msgJson
           \<and> msg_throttle msgJson = fmod (solution ! 7) 1
           \<and> \<bar>msg_throttle msgJson\<bar> < 1
           \<and> (\<bar>solution ! 7\<bar> < 1 \<longrightarrow> msg_throttle msgJson = solution ! 7)
           \<and> (0 \<le> solution ! 7 \<longrightarrow> msg_throttle msgJson = frac (solution ! 7))
           \<and> (solution ! 7 \<le> 0 \<longrightarrow> msg_throttle msgJson = - frac (- (solution ! 7)))"
  using assms
  by (simp add: steer_message_def Let_def fmod_one_bound fmod_one_small fmod_one_nonneg
      fmod_one_nonpos)

theorem throttle_is_fmod_witness:
  "map_sum id msg_throttle (steer_message [0, 0, 0, 0, 0, 0, 0, - 5 / 4]) = Inr (- 1 / 4)
   \<and> map_sum id msg_throttle (steer_message [0, 0, 0, 0, 0, 0, 0, 3 / 4]) = Inr (3 / 4)"
proof -
  from throttle_is_fmod [of "[0, 0, 0, 0, 0, 0, 0, - 5 / 4]"]
  have a: "map_sum id msg_throttle (steer_message [0, 0, 0, 0, 0, 0, 0, - 5 / 4]) = Inr (- 1 / 4)"
    by (auto simp: frac_def)
  from throttle_is_fmod [of "[0, 0, 0, 0, 0, 0, 0, 3 / 4]"]
  have b: "map_sum id msg_throttle (steer_message [0, 0, 0, 0, 0, 0, 0, 3 / 4]) = Inr (3 / 4)"
    by auto
  from a b show ?thesis by simp
qed

text \<open>
  C3 as stated fails: an optimizer throttle of 3/2 is sent as 1/2, where saturation at
  the bounds of the interval from -1 to 1 would send 1.
\<close>

theorem throttle_not_saturated_counterexample:
  "map_sum id msg_throttle (steer_message [0, 0, 0, 0, 0, 0, 0, 3 / 2]) = Inr (1 / 2)
   \<and> max (- 1) (min 1 (3 / 2 :: real)) = 1"
  by (simp add: steer_message_def Let_def fmod_def trunc_def)

text \<open>The bound itself is not kept either: a throttle of exactly 1 is sent as 0.\<close>

lemma full_throttle_example:
  "map_sum id msg_throttle (steer_message [0, 0, 0, 0, 0, 0, 0, 1]) = Inr 0"
  by (simp add: steer_message_def Let_def fmod_def trunc_def)

text \<open>
  The display lists of every steer message: one predicted point, \<open>solution[0]\<close> and
  \<open>solution[1]\<close>, and no point of the reference curve.
\<close>

lemma steer_message_lists:
  "steer_message solution = Inr msgJson \<Longrightarrow>
     msg_mpc_x msgJson = [solution ! 0] \<and> msg_mpc_y msgJson = [solution ! 1]
     \<and> msg_next_x msgJson = [] \<and> msg_next_y msgJson = []"
  by (auto simp: steer_message_def Let_def split: if_splits)

text \<open>
  C5 at a concrete optimizer result of ten numbers: the message holds the single
  predicted point (1/2, 1/4) and empty lists for the reference curve, where the claim
  asks for every predicted point and for the samples of the reference curve.
\<close>

theorem steer_message_display_lists:
  "steer_message [1 / 2, 1 / 4, 0, 10, 0, 0, 0, 1 / 2, 1, 1 / 3]
     = Inr \<lparr> msg_steering_angle = 0, msg_throttle = 1 / 2,
             msg_mpc_x = [1 / 2], msg_mpc_y = [1 / 4], msg_next_x = [], msg_next_y = [] \<rparr>"
  by (simp add: steer_message_def Let_def fmod_def trunc_def deg2rad_def)

section \<open>Too few waypoints\<close>

lemma optimizer_input_few_waypoints:
  "length (tel_ptsx t) < 4 \<Longrightarrow> optimizer_input ext t = Inl AssertionFailed"
  by (auto simp: optimizer_input_def convertToCoordinates_def polyfit_def convert_loop_rows
      split: sum.splits)

text \<open>
  C6, as the code has it. A telemetry cycle with fewer than 4 waypoints, so also one
  with fewer than 2, fails an assertion (the equal lengths of \<open>convertToCoordinates\<close>
  or \<open>order <= xvals.size() - 1\<close> of \<open>polyfit\<close>), which ends the process: no message is
  sent for the cycle, whatever the solver and the optimizer are.
\<close>

theorem few_waypoints_abort:
  assumes "length (tel_ptsx t) < 4"
  shows "telemetry_cycle ext t = Crashed AssertionFailed"
  using assms by (simp add: telemetry_cycle_def optimizer_input_few_waypoints)

theorem few_waypoints_abort_witness:
  "\<forall>ext. telemetry_cycle ext
      \<lparr> tel_ptsx = [], tel_ptsy = [], tel_x = 0, tel_y = 0, tel_psi = 0,
        tel_speed = 10, tel_steering_angle = 0, tel_throttle = 0 \<rparr> = Crashed AssertionFailed"
proof
  fix ext
  show "telemetry_cycle ext
      \<lparr> tel_ptsx = [], tel_ptsy = [], tel_x = 0, tel_y = 0, tel_psi = 0,
        tel_speed = 10, tel_steering_angle = 0, tel_throttle = 0 \<rparr> = Crashed AssertionFailed"
    using few_waypoints_abort [of "\<lparr> tel_ptsx = [], tel_ptsy = [], tel_x = 0, tel_y = 0, tel_psi = 0,
        tel_speed = 10, tel_steering_angle = 0, tel_throttle = 0 \<rparr>" ext]
    by simp
qed

text \<open>
  C6 as stated fails: with the single waypoint (1, 2) the cycle neither sends an
  actuation nor survives; the assertion of \<open>polyfit\<close> ends the process.
\<close>

theorem single_waypoint_counterexample:
  "\<forall>ext. telemetry_cycle ext
      \<lparr> tel_ptsx = [1], tel_ptsy = [2], tel_x = 0, tel_y = 0, tel_psi = 0,
        tel_speed = 10, tel_steering_angle = 0, tel_throttle = 0 \<rparr> = Crashed AssertionFailed"
  by (simp add: telemetry_cycle_def optimizer_input_def convertToCoordinates_def polyfit_def)

end
